theory Spec2Isabelle
  imports Main "HOL-Library.Sublist"
begin

section \<open>Go values shared by every backend\<close>

text \<open>
  A Go \<open>string\<close> is a \<open>string\<close> here; one list element stands for one character of the
  input, which is also the unit the \<open>regexp\<close> package matches on. A Go \<open>error\<close> is modelled
  by its message. A call either returns or panics; a panic carries the panic value.
\<close>

datatype error = Error string

datatype 'a outcome = Panic string | Returns 'a

definition nil_dereference :: string where
  "nil_dereference = ''runtime error: invalid memory address or nil pointer dereference''"

text \<open>\<open>oss.Object\<close> as the backends fill it (the back-reference to the backend is left out).\<close>

record Object =
  Path :: string
  Name :: string
  LastModified :: "int option"
  Size :: int

subsection \<open>Package strings\<close>

definition HasPrefix :: "string \<Rightarrow> string \<Rightarrow> bool" where
  "HasPrefix s p = prefix p s"

definition HasSuffix :: "string \<Rightarrow> string \<Rightarrow> bool" where
  "HasSuffix s p = suffix p s"

definition TrimPrefix :: "string \<Rightarrow> string \<Rightarrow> string" where
  "TrimPrefix s p = (if HasPrefix s p then drop (length p) s else s)"

subsection \<open>Package path/filepath\<close>

text \<open>
  \<open>filepath.Base\<close> on a slash-separated path: the last element, after trailing slashes are
  removed; \<open>"."\<close> for the empty path and \<open>"/"\<close> for a path of slashes only.
\<close>

definition Base :: "string \<Rightarrow> string" where
  "Base p =
     (if p = [] then ''.''
      else let q = dropWhile (\<lambda>c. c = CHR ''/'') (rev p)
           in if q = [] then ''/'' else rev (takeWhile (\<lambda>c. c \<noteq> CHR ''/'') q))"

subsection \<open>Package net/url\<close>

text \<open>
  \<open>url.Parse\<close> belongs to the Go standard library. The normalizers read one thing from it:
  whether it returned an error (\<open>None\<close>) and otherwise the \<open>Path\<close> field of the URL it
  returned. It is an argument of every function that calls it.
\<close>

type_synonym url_parser = "string \<Rightarrow> string option"

subsection \<open>Package regexp\<close>

text \<open>
  The regular expressions of the repository use literals, \<open>.\<close> (any character but newline),
  \<open>\w\<close> (\<open>[0-9A-Za-z_]\<close>), concatenation, \<open>?\<close> and \<open>+\<close>. \<open>lang\<close> is the set of strings an
  expression matches as a whole; \<open>MatchString\<close> reports whether the input contains a match,
  and is computed by partial derivatives over the input.
\<close>

datatype cclass = Lit char | Dot | WordC

definition is_word :: "char \<Rightarrow> bool" where
  "is_word c = (let n = (of_char c :: nat) in
     (48 \<le> n \<and> n \<le> 57) \<or> (65 \<le> n \<and> n \<le> 90) \<or> n = 95 \<or> (97 \<le> n \<and> n \<le> 122))"

fun in_class :: "cclass \<Rightarrow> char \<Rightarrow> bool" where
  "in_class (Lit a) c = (c = a)"
| "in_class Dot c = (c \<noteq> CHR 0x0A)"
| "in_class WordC c = is_word c"

datatype regexp = Empty | Eps | Sym cclass | Alt regexp regexp | Seq regexp regexp | Star regexp



fun nullable :: "regexp \<Rightarrow> bool" where
  "nullable Empty = False"
| "nullable Eps = True"
| "nullable (Sym k) = False"
| "nullable (Alt r s) = (nullable r \<or> nullable s)"
| "nullable (Seq r s) = (nullable r \<and> nullable s)"
| "nullable (Star r) = True"

fun pderiv :: "char \<Rightarrow> regexp \<Rightarrow> regexp list" where
  "pderiv c Empty = []"
| "pderiv c Eps = []"
| "pderiv c (Sym k) = (if in_class k c then [Eps] else [])"
| "pderiv c (Alt r s) = pderiv c r @ pderiv c s"
| "pderiv c (Seq r s) =
     map (\<lambda>r'. Seq r' s) (pderiv c r) @ (if nullable r then pderiv c s else [])"
| "pderiv c (Star r) = map (\<lambda>r'. Seq r' (Star r)) (pderiv c r)"

text \<open>
  One character of input: every live expression is advanced, and the whole expression is
  added again, since a match may start at any position.
\<close>

definition step :: "regexp \<Rightarrow> char \<Rightarrow> regexp list \<Rightarrow> regexp list" where
  "step r c ds = remdups (r # concat (map (pderiv c) ds))"

fun search :: "regexp \<Rightarrow> regexp list \<Rightarrow> string \<Rightarrow> bool" where
  "search r ds [] = list_ex nullable ds"
| "search r ds (c # cs) = (list_ex nullable ds \<or> search r (step r c ds) cs)"

definition MatchString :: "regexp \<Rightarrow> string \<Rightarrow> bool" where
  "MatchString r s = search r [r] s"




definition lit :: "string \<Rightarrow> regexp" where
  "lit s = foldr (\<lambda>c r. Seq (Sym (Lit c)) r) s Eps"

definition opt :: "regexp \<Rightarrow> regexp" where
  "opt r = Alt r Eps"

definition plus1 :: "regexp \<Rightarrow> regexp" where
  "plus1 r = Seq r (Star r)"

text \<open>The optional scheme \<open>(https?:)?\<close> that starts every URL pattern of the repository.\<close>

definition scheme_opt :: regexp where
  "scheme_opt = opt (Seq (lit ''http'') (Seq (opt (Sym (Lit CHR ''s''))) (Sym (Lit CHR '':''))))"

text \<open>One group \<open>(\w+).\<close> and the tail \<open>(\w+)/\<close>.\<close>

definition word_dot :: regexp where
  "word_dot = Seq (plus1 (Sym WordC)) (Sym Dot)"

definition word_slash :: regexp where
  "word_slash = Seq (plus1 (Sym WordC)) (Sym (Lit CHR ''/''))"

text \<open>
  \<open>regexp.MustCompile(`(https?:)?//((\w+).)+(\w+)/`)\<close>, the pattern of the aliyun, qiniu and
  azureblob packages.
\<close>

definition url_pattern :: regexp where
  "url_pattern = Seq scheme_opt (Seq (lit ''//'') (Seq (plus1 word_dot) word_slash))"

section \<open>The operating system and the network, as the backends see them\<close>

text \<open>
  An \<open>io.ReadCloser\<close> delivers some bytes and then ends, at EOF (\<open>None\<close>) or with a read
  error. The disk maps the full name of a regular file to its content.
\<close>

datatype stream = Stream (delivered: string) (failure: "error option")

type_synonym disk = "string \<rightharpoonup> string"

text \<open>
  \<open>new_name\<close> is the answer of the operating system to \<open>ioutil.TempFile(dir, pattern)\<close> and
  \<open>os.CreateTemp(dir, pattern)\<close>: an error, or the name of the file it creates. The file is
  opened with \<open>O_EXCL\<close>, so a name in use is an error; a created file is empty.
\<close>

record opsys =
  TempDir :: string
  new_name :: "string \<Rightarrow> string \<Rightarrow> disk \<Rightarrow> error + string"

definition TempFile :: "opsys \<Rightarrow> string \<Rightarrow> string \<Rightarrow> disk \<Rightarrow> (error + string) \<times> disk" where
  "TempFile sys dir pattern d =
     (case new_name sys dir pattern d of
        Inl err \<Rightarrow> (Inl err, d)
      | Inr name \<Rightarrow>
          (if d name \<noteq> None then (Inl (Error (''open '' @ name @ '': file exists'')), d)
           else (Inr name, d(name \<mapsto> []))))"

text \<open>\<open>io.Copy(file, src)\<close>: what the stream delivers is written; its read error is returned.\<close>

definition Copy :: "disk \<Rightarrow> string \<Rightarrow> stream \<Rightarrow> error option \<times> disk" where
  "Copy d file src = (failure src, d(file \<mapsto> delivered src))"


text \<open>
  \<open>http.Get(url)\<close> returns a pair of a response pointer, which may be nil, and an error.
\<close>

record Response =
  StatusCode :: int
  Body :: stream

type_synonym http_get = "string \<Rightarrow> Response option \<times> error option"

section \<open>Package huawei\<close>

record huawei_Config =
  hw_SecretID :: string
  hw_SecretKey :: string
  hw_Endpoint :: string
  hw_Region :: string
  hw_Bucket :: string
  hw_SecurityToken :: string

record GetObjectInput =
  get_Bucket :: string
  get_Key :: string

record CreateSignedUrlInput =
  sign_Method :: string
  sign_Bucket :: string
  sign_Key :: string
  sign_Expires :: int

text \<open>The calls of \<open>obs.ObsClient\<close>, the vendor's client, that the claims reach.\<close>

record ObsClient =
  obs_GetObject :: "GetObjectInput \<Rightarrow> error + stream"
  obs_CreateSignedUrl :: "CreateSignedUrlInput \<Rightarrow> error + string"


definition huawei_ToRelativePath :: "string \<Rightarrow> string" where
  "huawei_ToRelativePath urlPath = TrimPrefix urlPath ''/''"

definition huawei_GetEndpoint :: "huawei_Config \<Rightarrow> string" where
  "huawei_GetEndpoint config = hw_Endpoint config"


definition huawei_GetStream :: "ObsClient \<Rightarrow> huawei_Config \<Rightarrow> string \<Rightarrow> error + stream" where
  "huawei_GetStream obs config path =
     (case obs_GetObject obs \<lparr>get_Bucket = hw_Bucket config, get_Key = huawei_ToRelativePath path\<rparr> of
        Inl err \<Rightarrow> Inl err
      | Inr body \<Rightarrow> Inr body)"

text \<open>
  \<open>Get\<close> returns the pair \<open>(file, err)\<close> of the source, and the disk it leaves.
\<close>

definition huawei_Get ::
  "ObsClient \<Rightarrow> opsys \<Rightarrow> huawei_Config \<Rightarrow> disk \<Rightarrow> string \<Rightarrow> (string option \<times> error option) \<times> disk" where
  "huawei_Get obs sys config d path =
     (case huawei_GetStream obs config path of
        Inl err \<Rightarrow> ((None, Some err), d)
      | Inr readCloser \<Rightarrow>
          (case TempFile sys ''/tmp'' ''huaweicloud'' d of
             (Inl err, d') \<Rightarrow> ((None, Some err), d')
           | (Inr file, d') \<Rightarrow>
               (case Copy d' file readCloser of (err, d'') \<Rightarrow> ((Some file, err), d''))))"

section \<open>Package aliyun\<close>

record aliyun_Config =
  ali_AccessId :: string
  ali_AccessKey :: string
  ali_Region :: string
  ali_Bucket :: string
  ali_Endpoint :: string
  ali_ACL :: string
  ali_UseCname :: bool

record ObjectProperties =
  Key :: string
  ModTime :: int
  ObjSize :: int

record ListObjectsResult =
  Objects :: "ObjectProperties list"
  IsTruncated :: bool
  NextMarker :: string

text \<open>
  The vendor's \<open>*aliyun.Bucket\<close>: the endpoint its client was built with
  (\<open>Bucket.Client.Config.Endpoint\<close>) and the calls the claims reach.
\<close>

record aliyun_Bucket =
  Client_Config_Endpoint :: string
  GetObject :: "string \<Rightarrow> error + stream"
  ListObjects :: "string \<Rightarrow> error + ListObjectsResult"
  SignURL :: "string \<Rightarrow> string \<Rightarrow> int \<Rightarrow> error + string"

definition ACLPrivate :: string where
  "ACLPrivate = ''private''"

definition HTTPGet :: string where
  "HTTPGet = ''GET''"

definition aliyun_GetEndpoint :: "aliyun_Bucket \<Rightarrow> aliyun_Config \<Rightarrow> string" where
  "aliyun_GetEndpoint bucket config =
     (if ali_Endpoint config \<noteq> [] then
        (if HasSuffix (ali_Endpoint config) ''aliyuncs.com''
         then ali_Bucket config @ ''.'' @ ali_Endpoint config
         else ali_Endpoint config)
      else ali_Bucket config @ ''.'' @
           foldl TrimPrefix (Client_Config_Endpoint bucket) [''https://'', ''http://''])"

definition aliyun_urlRegexp :: regexp where
  "aliyun_urlRegexp = url_pattern"

definition aliyun_ToRelativePath :: "url_parser \<Rightarrow> string \<Rightarrow> string" where
  "aliyun_ToRelativePath parse urlPath =
     (if MatchString aliyun_urlRegexp urlPath then
        (case parse urlPath of
           Some u_Path \<Rightarrow> TrimPrefix u_Path ''/''
         | None \<Rightarrow> TrimPrefix urlPath ''/'')
      else TrimPrefix urlPath ''/'')"

definition aliyun_GetURL :: "aliyun_Bucket \<Rightarrow> url_parser \<Rightarrow> aliyun_Config \<Rightarrow> string \<Rightarrow> error + string" where
  "aliyun_GetURL bucket parse config path =
     (if ali_ACL config = ACLPrivate
      then SignURL bucket (aliyun_ToRelativePath parse path) HTTPGet (60 * 60)
      else Inr path)"

definition aliyun_GetStream :: "aliyun_Bucket \<Rightarrow> url_parser \<Rightarrow> string \<Rightarrow> error + stream" where
  "aliyun_GetStream bucket parse path = GetObject bucket (aliyun_ToRelativePath parse path)"

definition aliyun_Get ::
  "aliyun_Bucket \<Rightarrow> opsys \<Rightarrow> url_parser \<Rightarrow> disk \<Rightarrow> string \<Rightarrow> (string option \<times> error option) \<times> disk" where
  "aliyun_Get bucket sys parse d path =
     (case aliyun_GetStream bucket parse path of
        Inl err \<Rightarrow> ((None, Some err), d)
      | Inr readCloser \<Rightarrow>
          (case TempFile sys ''/tmp'' ''ali'' d of
             (Inl err, d') \<Rightarrow> ((None, Some err), d')
           | (Inr file, d') \<Rightarrow>
               (case Copy d' file readCloser of (err, d'') \<Rightarrow> ((Some file, err), d''))))"

text \<open>\<open>List\<close> makes one call of \<open>ListObjects\<close>, with the path as given for the prefix.\<close>

definition aliyun_List :: "aliyun_Bucket \<Rightarrow> url_parser \<Rightarrow> string \<Rightarrow> Object list \<times> error option" where
  "aliyun_List bucket parse path =
     (case ListObjects bucket path of
        Inl err \<Rightarrow> ([], Some err)
      | Inr results \<Rightarrow>
          (map (\<lambda>obj. \<lparr>Path = ''/'' @ aliyun_ToRelativePath parse (Key obj), Name = Base (Key obj),
                       LastModified = Some (ModTime obj), Size = ObjSize obj\<rparr>)
               (Objects results), None))"

section \<open>Package tencent\<close>

record tencent_Config =
  tc_AppID :: string
  tc_SecretID :: string
  tc_SecretKey :: string
  tc_Region :: string
  tc_Bucket :: string
  tc_ACL :: string
  tc_CORS :: string
  tc_Endpoint :: string

text \<open>
  \<open>regexp.MustCompile(`(https?:)?//((\\w+).)+(\w+)/`)\<close>: in a raw string literal \<open>\\\<close> is
  an escaped backslash, so each group is a backslash, one or more letters \<open>w\<close>, and any
  character.
\<close>

definition tencent_urlRegexp :: regexp where
  "tencent_urlRegexp =
     Seq scheme_opt (Seq (lit ''//'')
       (Seq (plus1 (Seq (Seq (Sym (Lit (CHR 0x5C))) (plus1 (Sym (Lit CHR ''w'')))) (Sym Dot)))
            word_slash))"

definition tencent_ToRelativePath :: "url_parser \<Rightarrow> string \<Rightarrow> string" where
  "tencent_ToRelativePath parse urlPath =
     (if MatchString tencent_urlRegexp urlPath then
        (case parse urlPath of
           Some u_Path \<Rightarrow> TrimPrefix u_Path ''/''
         | None \<Rightarrow> TrimPrefix urlPath ''/'')
      else TrimPrefix urlPath ''/'')"

definition tencent_getUrl :: "url_parser \<Rightarrow> tencent_Config \<Rightarrow> string \<Rightarrow> string" where
  "tencent_getUrl parse config path =
     ''https://'' @ tc_Bucket config @ ''-'' @ tc_AppID config @ ''.cos.'' @ tc_Region config @
     ''.myqcloud.com/'' @ tencent_ToRelativePath parse path"

definition tencent_GetURL :: "url_parser \<Rightarrow> tencent_Config \<Rightarrow> string \<Rightarrow> error + string" where
  "tencent_GetURL parse config path = Inr (tencent_getUrl parse config path)"

definition tencent_GetEndpoint :: "tencent_Config \<Rightarrow> string" where
  "tencent_GetEndpoint config =
     (if tc_Endpoint config \<noteq> [] then tc_Endpoint config
      else tc_Bucket config @ ''-'' @ tc_AppID config @ ''.cos.'' @ tc_Region config @ ''.myqcloud.com'')"

text \<open>\<open>cos_Get\<close> is the vendor's \<open>COS.Object.Get\<close>: an error, or the body of the response.\<close>

definition tencent_GetStream :: "(string \<Rightarrow> error + stream) \<Rightarrow> url_parser \<Rightarrow> string \<Rightarrow> error + stream" where
  "tencent_GetStream cos_Get parse path =
     (case cos_Get (tencent_ToRelativePath parse path) of
        Inl err \<Rightarrow> Inl err
      | Inr body \<Rightarrow> Inr body)"

definition tencent_Get ::
  "(string \<Rightarrow> error + stream) \<Rightarrow> opsys \<Rightarrow> url_parser \<Rightarrow> disk \<Rightarrow> string \<Rightarrow> (string option \<times> error option) \<times> disk" where
  "tencent_Get cos_Get sys parse d path =
     (case tencent_GetStream cos_Get parse path of
        Inl err \<Rightarrow> ((None, Some err), d)
      | Inr readCloser \<Rightarrow>
          (case TempFile sys ''/tmp'' ''tencent'' d of
             (Inl err, d') \<Rightarrow> ((None, Some err), d')
           | (Inr file, d') \<Rightarrow>
               (case Copy d' file readCloser of (err, d'') \<Rightarrow> ((Some file, err), d''))))"

section \<open>Package azureblob\<close>

record azureblob_Config =
  az_AccessId :: string
  az_AccessKey :: string
  az_Region :: string
  az_Bucket :: string
  az_Endpoint :: string



text \<open>\<open>fmt.Sprintf(blobFormatString, s)\<close> with \<open>blobFormatString = `https://%s.blob.core.windows.net`\<close>.\<close>

definition blobFormatString :: "string \<Rightarrow> string" where
  "blobFormatString s = ''https://'' @ s @ ''.blob.core.windows.net''"

text \<open>\<open>func (client Client) List(path string) ([]*oss.Object, error) { panic("implement me") }\<close>\<close>

definition azureblob_List :: "azureblob_Config \<Rightarrow> string \<Rightarrow> (Object list \<times> error option) outcome" where
  "azureblob_List config path = Panic ''implement me''"

definition azureblob_GetURL :: "azureblob_Config \<Rightarrow> string \<Rightarrow> error + string" where
  "azureblob_GetURL config path = Inr path"

definition azureblob_GetEndpoint :: "azureblob_Config \<Rightarrow> string" where
  "azureblob_GetEndpoint config =
     (if az_Endpoint config \<noteq> [] then az_Endpoint config
      else blobFormatString (az_AccessId config))"

section \<open>Package qiniu\<close>

record qiniu_Config =
  qn_AccessId :: string
  qn_AccessKey :: string
  qn_Region :: string
  qn_Bucket :: string
  qn_Endpoint :: string
  qn_UseHTTPS :: bool
  qn_UseCdnDomains :: bool
  qn_PrivateURL :: bool

record ListItem =
  item_Key :: string
  item_PutTime :: int

text \<open>
  The vendor's calls: \<open>bucketManager.ListFiles(bucket, prefix, delimiter, marker, limit)\<close>,
  which returns the entries, the common prefixes, the next marker and \<open>hasNext\<close>, or an error;
  \<open>storage.MakePrivateURL(mac, domain, key, deadline)\<close> for the client's credentials, and
  \<open>storage.MakePublicURL(domain, key)\<close>.
\<close>

record kodo =
  ListFiles :: "string \<Rightarrow> string \<Rightarrow> string \<Rightarrow> string \<Rightarrow> int \<Rightarrow>
                error + (ListItem list \<times> string list \<times> string \<times> bool)"
  MakePrivateURL :: "string \<Rightarrow> string \<Rightarrow> int \<Rightarrow> string"
  MakePublicURL :: "string \<Rightarrow> string \<Rightarrow> string"

definition qiniu_urlRegexp :: regexp where
  "qiniu_urlRegexp = url_pattern"

definition storageKey :: "url_parser \<Rightarrow> string \<Rightarrow> string" where
  "storageKey parse urlPath =
     TrimPrefix
       (if MatchString qiniu_urlRegexp urlPath then
          (case parse urlPath of Some u_Path \<Rightarrow> u_Path | None \<Rightarrow> urlPath)
        else urlPath)
       ''/''"

definition qiniu_GetEndpoint :: "qiniu_Config \<Rightarrow> string" where
  "qiniu_GetEndpoint config = qn_Endpoint config"

text \<open>\<open>now\<close> is \<open>time.Now()\<close> in seconds since the epoch.\<close>

definition qiniu_GetURL :: "kodo \<Rightarrow> int \<Rightarrow> url_parser \<Rightarrow> qiniu_Config \<Rightarrow> string \<Rightarrow> error + string" where
  "qiniu_GetURL sdk now parse config path =
     (if length path = 0 then Inr []
      else let key = storageKey parse path in
        if qn_PrivateURL config then
          (let deadline = now + 3600
           in Inr (MakePrivateURL sdk (qn_Endpoint config) key deadline))
        else Inr (MakePublicURL sdk (qiniu_GetEndpoint config) key))"

text \<open>
  \<open>GetStream\<close> reads \<open>res.StatusCode\<close> when \<open>err == nil\<close> and \<open>res.Body\<close> in every case; both
  dereference \<open>res\<close>.
\<close>

definition qiniu_GetStream ::
  "http_get \<Rightarrow> kodo \<Rightarrow> int \<Rightarrow> url_parser \<Rightarrow> qiniu_Config \<Rightarrow> string \<Rightarrow> (stream option \<times> error option) outcome" where
  "qiniu_GetStream Get sdk now parse config path =
     (case qiniu_GetURL sdk now parse config path of
        Inl err \<Rightarrow> Returns (None, Some err)
      | Inr purl \<Rightarrow>
          (case Get purl of
             (None, err) \<Rightarrow> Panic nil_dereference
           | (Some res, err) \<Rightarrow>
               Returns (Some (Body res),
                 if err = None \<and> StatusCode res \<noteq> 200
                 then Some (Error (''file '' @ path @ '' not found'')) else err)))"

text \<open>
  \<open>Get\<close> does not test the error of \<open>GetStream\<close>: \<open>err\<close> is assigned again by
  \<open>ioutil.TempFile\<close>. A nil \<open>readCloser\<close> panics at \<open>defer readCloser.Close()\<close>.
\<close>

definition qiniu_Get ::
  "http_get \<Rightarrow> kodo \<Rightarrow> opsys \<Rightarrow> int \<Rightarrow> url_parser \<Rightarrow> qiniu_Config \<Rightarrow> disk \<Rightarrow> string \<Rightarrow>
     (string option \<times> error option) outcome \<times> disk" where
  "qiniu_Get Get sdk sys now parse config d path =
     (case qiniu_GetStream Get sdk now parse config path of
        Panic v \<Rightarrow> (Panic v, d)
      | Returns (readCloser, _) \<Rightarrow>
          (case TempFile sys (TempDir sys) ''qiniu'' d of
             (Inl err, d') \<Rightarrow> (Returns (None, Some err), d')
           | (Inr file, d') \<Rightarrow>
               (case readCloser of
                  None \<Rightarrow> (Panic nil_dereference, d')
                | Some src \<Rightarrow>
                    (case Copy d' file src of (err, d'') \<Rightarrow> (Returns (Some file, err), d'')))))"

text \<open>\<open>List\<close> makes one call of \<open>ListFiles\<close>, with limit 100, and drops the marker and \<open>hasNext\<close>.\<close>

definition qiniu_List :: "kodo \<Rightarrow> url_parser \<Rightarrow> qiniu_Config \<Rightarrow> string \<Rightarrow> Object list \<times> error option" where
  "qiniu_List sdk parse config path =
     (let prefix = storageKey parse path in
      case ListFiles sdk (qn_Bucket config) prefix [] [] 100 of
        Inl err \<Rightarrow> ([], Some err)
      | Inr (listItems, _, _, _) \<Rightarrow>
          (map (\<lambda>content. \<lparr>Path = ''/'' @ storageKey parse (item_Key content),
                           Name = Base (item_Key content),
                           LastModified = Some (item_PutTime content), Size = 0\<rparr>)
               listItems, None))"

section \<open>Package synology\<close>

record synology_Config =
  syn_Endpoint :: string
  syn_AccessId :: string
  syn_AccessKey :: string
  syn_SessionExpire :: bool
  syn_Verify :: bool
  syn_Debug :: bool
  syn_OtpCode :: string
  syn_SharedFolder :: string

definition synology_GetEndpoint :: "synology_Config \<Rightarrow> string" where
  "synology_GetEndpoint config = syn_Endpoint config"

section \<open>Package filesystem\<close>

record FileSystem =
  fs_Base :: string



definition filesystem_GetEndpoint :: "FileSystem \<Rightarrow> string" where
  "filesystem_GetEndpoint fileSystem = ''/''"

definition filesystem_GetURL :: "FileSystem \<Rightarrow> string \<Rightarrow> error + string" where
  "filesystem_GetURL fileSystem path = Inr path"

section \<open>Endpoints the URL pattern recognises\<close>



section \<open>Example environments\<close>

text \<open>
  The vendor services, the operating system and the network are arguments of the backends.
  The examples below run the backends against these stand-ins.
\<close>

text \<open>A URL parser that returns an error for every input.\<close>

definition rejecting :: url_parser where
  "rejecting u = None"


text \<open>
  An OSS bucket handle whose objects deliver three bytes and then fail, whose listing is
  empty, and whose signer returns \<open>signed/\<close> followed by the key.
\<close>

definition sample_bucket :: aliyun_Bucket where
  "sample_bucket =
     \<lparr>Client_Config_Endpoint = ''https://oss-cn-hangzhou.aliyuncs.com'',
      GetObject = (\<lambda>key. Inr (Stream ''par'' (Some (Error ''unexpected EOF'')))),
      ListObjects = (\<lambda>prefix. Inr \<lparr>Objects = [], IsTruncated = False, NextMarker = []\<rparr>),
      SignURL = (\<lambda>key method expires. Inr (''signed/'' @ key))\<rparr>"

definition sample_config :: aliyun_Config where
  "sample_config =
     \<lparr>ali_AccessId = ''id'', ali_AccessKey = ''key'', ali_Region = [], ali_Bucket = ''bucket'',
      ali_Endpoint = ''oss-cn-hangzhou.aliyuncs.com'', ali_ACL = ''public-read'',
      ali_UseCname = False\<rparr>"

definition sample_tencent :: tencent_Config where
  "sample_tencent =
     \<lparr>tc_AppID = ''1250000000'', tc_SecretID = ''id'', tc_SecretKey = ''key'', tc_Region = ''ap-beijing'',
      tc_Bucket = ''bucket'', tc_ACL = [], tc_CORS = [], tc_Endpoint = []\<rparr>"

definition sample_azure :: azureblob_Config where
  "sample_azure =
     \<lparr>az_AccessId = ''account'', az_AccessKey = ''key'', az_Region = [], az_Bucket = ''container'',
      az_Endpoint = []\<rparr>"

text \<open>A vendor listing whose page holds one object and reports that more follow.\<close>

definition truncated_page :: "string \<Rightarrow> error + ListObjectsResult" where
  "truncated_page pre =
     Inr \<lparr>Objects = [\<lparr>Key = ''a'', ModTime = 0, ObjSize = 1\<rparr>], IsTruncated = True, NextMarker = ''a''\<rparr>"

text \<open>A Huawei OBS client with the same objects and signer, and its configuration.\<close>

definition sample_obs :: ObsClient where
  "sample_obs =
     \<lparr>obs_GetObject = (\<lambda>input. Inr (Stream ''par'' (Some (Error ''unexpected EOF'')))),
      obs_CreateSignedUrl = (\<lambda>input. Inr (''signed/'' @ sign_Key input))\<rparr>"

definition sample_huawei :: huawei_Config where
  "sample_huawei =
     \<lparr>hw_SecretID = ''id'', hw_SecretKey = ''key'', hw_Endpoint = ''obs.cn-north-4.myhuaweicloud.com'',
      hw_Region = ''cn-north-4'', hw_Bucket = ''bucket'', hw_SecurityToken = []\<rparr>"

text \<open>A vendor call that finds no object under any key.\<close>

definition no_such_key :: "'a \<Rightarrow> error + stream" where
  "no_such_key key = Inl (Error ''NoSuchKey'')"

text \<open>A vendor call whose object delivers three bytes and then fails.\<close>

definition interrupted :: "'a \<Rightarrow> error + stream" where
  "interrupted key = Inr (Stream ''par'' (Some (Error ''unexpected EOF'')))"

text \<open>An operating system that names the temporary file \<open>dir/pattern123\<close>.\<close>

definition sample_os :: opsys where
  "sample_os = \<lparr>TempDir = ''/tmp'', new_name = (\<lambda>dir pattern d. Inr (dir @ ''/'' @ pattern @ ''123''))\<rparr>"

text \<open>
  A Kodo bucket that holds \<open>keys\<close> and pages its listing: a call returns at most \<open>limit\<close>
  entries with the prefix, after the marker, and sets \<open>hasNext\<close> when more remain.
\<close>

definition paged_ListFiles ::
  "string list \<Rightarrow> string \<Rightarrow> string \<Rightarrow> string \<Rightarrow> string \<Rightarrow> int \<Rightarrow>
     error + (ListItem list \<times> string list \<times> string \<times> bool)" where
  "paged_ListFiles keys bucket pre delimiter marker limit =
     (let matching = filter (\<lambda>k. HasPrefix k pre) keys;
          rest = (if marker = [] then matching else drop 1 (dropWhile (\<lambda>k. k \<noteq> marker) matching));
          page = take (nat limit) rest;
          hasNext = (nat limit < length rest)
      in Inr (map (\<lambda>k. \<lparr>item_Key = k, item_PutTime = 0\<rparr>) page, [],
              (if hasNext \<and> page \<noteq> [] then last page else []), hasNext))"

definition sample_kodo :: "string list \<Rightarrow> kodo" where
  "sample_kodo keys =
     \<lparr>ListFiles = paged_ListFiles keys,
      MakePrivateURL = (\<lambda>domain key deadline. domain @ ''/'' @ key @ ''?e=deadline&token=signature''),
      MakePublicURL = (\<lambda>domain key. domain @ ''/'' @ key)\<rparr>"

text \<open>101 keys: \<open>a\<close>, \<open>aa\<close>, ..., the last of 101 letters.\<close>

definition many_keys :: "string list" where
  "many_keys = map (\<lambda>n. replicate (Suc n) CHR ''a'') [0..<101]"

definition sample_qiniu :: qiniu_Config where
  "sample_qiniu =
     \<lparr>qn_AccessId = ''id'', qn_AccessKey = ''key'', qn_Region = ''huadong'', qn_Bucket = ''bucket'',
      qn_Endpoint = ''https://cdn.example.com'', qn_UseHTTPS = True, qn_UseCdnDomains = False,
      qn_PrivateURL = True\<rparr>"

text \<open>A network that refuses the connection, and a server that answers 404.\<close>

definition refused :: http_get where
  "refused url = (None, Some (Error ''dial tcp: connection refused''))"

definition not_found :: http_get where
  "not_found url = (Some \<lparr>StatusCode = 404, Body = Stream ''Document not found'' None\<rparr>, None)"


section \<open>The matcher computes containment of a match\<close>















section \<open>Strings the URL pattern matches\<close>
















section \<open>The path normalizers\<close>

lemma TrimPrefix_slash_Nil: "TrimPrefix [] ''/'' = []"
  by (simp add: TrimPrefix_def HasPrefix_def)

lemma TrimPrefix_slash_Cons: "TrimPrefix (c # cs) ''/'' = (if c = CHR ''/'' then cs else c # cs)"
  by (simp add: TrimPrefix_def HasPrefix_def)












subsection \<open>Normalizing twice\<close>




subsection \<open>The three input shapes\<close>




lemma HasSuffix_rev: "HasSuffix s p = prefix (rev p) (rev s)"
  by (simp add: HasSuffix_def suffix_to_prefix)

lemma sample_endpoint:
  "aliyun_GetEndpoint sample_bucket sample_config = ''bucket.oss-cn-hangzhou.aliyuncs.com''"
  by (simp add: aliyun_GetEndpoint_def sample_config_def HasSuffix_rev)








section \<open>The URL policy\<close>

lemma pattern_rejects_a_txt: "\<not> MatchString url_pattern ''a.txt''"
  by code_simp

lemma pattern_rejects_slash_a_txt: "\<not> MatchString url_pattern ''/a.txt''"
  by code_simp

lemma pattern_rejects_empty: "\<not> MatchString url_pattern []"
  by code_simp

lemma pattern_rejects_missing: "\<not> MatchString url_pattern ''missing.txt''"
  by code_simp

subsection \<open>Public access\<close>

text \<open>
  C3, as the code has it. With public access \<open>GetURL(p)\<close> returns \<open>p\<close> as it was given, not
  normalized, for Aliyun (any ACL but private), Azure Blob and the filesystem; for Aliyun
  the value equals the normalized path exactly when \<open>p\<close> is already normalized. Tencent
  returns \<open>https://<bucket>-<appid>.cos.<region>.myqcloud.com/\<close> followed by the normalized
  path, and Qiniu, for a non-empty path, the vendor's public URL of the endpoint and the
  normalized key.
\<close>

theorem public_GetURL:
  "(ali_ACL config \<noteq> ACLPrivate \<longrightarrow> aliyun_GetURL bucket parse config p = Inr p)
   \<and> (ali_ACL config \<noteq> ACLPrivate \<longrightarrow>
        (aliyun_GetURL bucket parse config p = Inr (aliyun_ToRelativePath parse p)
           \<longleftrightarrow> aliyun_ToRelativePath parse p = p))
   \<and> azureblob_GetURL azure p = Inr p
   \<and> filesystem_GetURL fileSystem p = Inr p
   \<and> tencent_GetURL parse tencent p =
        Inr (''https://'' @ tc_Bucket tencent @ ''-'' @ tc_AppID tencent @ ''.cos.'' @ tc_Region tencent
             @ ''.myqcloud.com/'' @ tencent_ToRelativePath parse p)
   \<and> (\<not> qn_PrivateURL qiniu \<and> p \<noteq> [] \<longrightarrow>
        qiniu_GetURL sdk now parse qiniu p
          = Inr (MakePublicURL sdk (qn_Endpoint qiniu) (storageKey parse p)))"
  by (auto simp: aliyun_GetURL_def azureblob_GetURL_def filesystem_GetURL_def tencent_GetURL_def
      tencent_getUrl_def qiniu_GetURL_def qiniu_GetEndpoint_def Let_def)

text \<open>The theorem at the path \<open>a.txt\<close>, which is its own normalized path.\<close>

theorem public_GetURL_witness:
  "ali_ACL sample_config \<noteq> ACLPrivate
   \<and> aliyun_GetURL sample_bucket rejecting sample_config ''a.txt'' = Inr ''a.txt''
   \<and> aliyun_ToRelativePath rejecting ''a.txt'' = ''a.txt''
   \<and> aliyun_GetURL sample_bucket rejecting sample_config ''a.txt'' = Inr (aliyun_ToRelativePath rejecting ''a.txt'')
   \<and> \<not> qn_PrivateURL (sample_qiniu\<lparr>qn_PrivateURL := False\<rparr>) \<and> ''a.txt'' \<noteq> []
   \<and> qiniu_GetURL (sample_kodo []) 1700000000 rejecting (sample_qiniu\<lparr>qn_PrivateURL := False\<rparr>) ''a.txt''
        = Inr ''https://cdn.example.com/a.txt''"
proof -
  have acl: "ali_ACL sample_config \<noteq> ACLPrivate"
    by (simp add: sample_config_def ACLPrivate_def)
  have norm: "aliyun_ToRelativePath rejecting ''a.txt'' = ''a.txt''"
    by (simp add: aliyun_ToRelativePath_def aliyun_urlRegexp_def pattern_rejects_a_txt TrimPrefix_slash_Cons)
  have key: "storageKey rejecting ''a.txt'' = ''a.txt''"
    by (simp add: storageKey_def qiniu_urlRegexp_def pattern_rejects_a_txt TrimPrefix_slash_Cons)
  have pub: "\<not> qn_PrivateURL (sample_qiniu\<lparr>qn_PrivateURL := False\<rparr>) \<and> ''a.txt'' \<noteq> []"
    by simp
  show ?thesis
    using public_GetURL [of sample_config sample_bucket rejecting "''a.txt''" _ _ _
        "sample_qiniu\<lparr>qn_PrivateURL := False\<rparr>" "sample_kodo []" 1700000000] acl norm key pub
    by (simp add: sample_kodo_def sample_qiniu_def)
qed

text \<open>
  C3 as stated fails at the path \<open>/a.txt\<close>: a public Aliyun backend returns \<open>/a.txt\<close>, and the
  normalized path is \<open>a.txt\<close>.
\<close>

theorem public_GetURL_counterexample:
  "ali_ACL sample_config \<noteq> ACLPrivate
   \<and> aliyun_GetURL sample_bucket rejecting sample_config ''/a.txt'' = Inr ''/a.txt''
   \<and> aliyun_ToRelativePath rejecting ''/a.txt'' = ''a.txt''"
  by (simp add: sample_config_def ACLPrivate_def aliyun_GetURL_def aliyun_ToRelativePath_def
      aliyun_urlRegexp_def pattern_rejects_slash_a_txt TrimPrefix_slash_Cons)

subsection \<open>Private access\<close>






section \<open>The endpoint resolver\<close>

text \<open>
  C5, as the code has it. Tencent and Azure Blob return the configured endpoint when one is
  set and their computed default otherwise. Aliyun returns a configured endpoint as it is
  only when it does not end in \<open>aliyuncs.com\<close>; one that does is returned with the bucket
  name and a dot in front; with no configured endpoint Aliyun returns the bucket name, a
  dot and the SDK's endpoint without its scheme. Qiniu, Huawei and Synology return the
  configured endpoint in every case, and the filesystem returns \<open>/\<close>.
\<close>

theorem GetEndpoint_resolution:
  "(tc_Endpoint tencent \<noteq> [] \<longrightarrow> tencent_GetEndpoint tencent = tc_Endpoint tencent)
   \<and> (tc_Endpoint tencent = [] \<longrightarrow>
        tencent_GetEndpoint tencent
          = tc_Bucket tencent @ ''-'' @ tc_AppID tencent @ ''.cos.'' @ tc_Region tencent @ ''.myqcloud.com'')
   \<and> (az_Endpoint azure \<noteq> [] \<longrightarrow> azureblob_GetEndpoint azure = az_Endpoint azure)
   \<and> (az_Endpoint azure = [] \<longrightarrow>
        azureblob_GetEndpoint azure = ''https://'' @ az_AccessId azure @ ''.blob.core.windows.net'')
   \<and> (ali_Endpoint config \<noteq> [] \<and> \<not> HasSuffix (ali_Endpoint config) ''aliyuncs.com'' \<longrightarrow>
        aliyun_GetEndpoint bucket config = ali_Endpoint config)
   \<and> (ali_Endpoint config \<noteq> [] \<and> HasSuffix (ali_Endpoint config) ''aliyuncs.com'' \<longrightarrow>
        aliyun_GetEndpoint bucket config = ali_Bucket config @ ''.'' @ ali_Endpoint config)
   \<and> (ali_Endpoint config = [] \<longrightarrow>
        aliyun_GetEndpoint bucket config
          = ali_Bucket config @ ''.'' @
            TrimPrefix (TrimPrefix (Client_Config_Endpoint bucket) ''https://'') ''http://'')
   \<and> qiniu_GetEndpoint qiniu = qn_Endpoint qiniu
   \<and> huawei_GetEndpoint huawei = hw_Endpoint huawei
   \<and> synology_GetEndpoint synology = syn_Endpoint synology
   \<and> filesystem_GetEndpoint fileSystem = ''/''"
  by (simp add: tencent_GetEndpoint_def azureblob_GetEndpoint_def blobFormatString_def
      aliyun_GetEndpoint_def qiniu_GetEndpoint_def huawei_GetEndpoint_def synology_GetEndpoint_def
      filesystem_GetEndpoint_def)

lemma cdn_not_aliyuncs: "\<not> HasSuffix ''cdn.example.com'' ''aliyuncs.com''"
  by (simp add: HasSuffix_rev)

lemma default_is_aliyuncs: "HasSuffix ''oss-cn-hangzhou.aliyuncs.com'' ''aliyuncs.com''"
  by (simp add: HasSuffix_rev)

text \<open>The theorem at configurations with and without an endpoint of their own.\<close>

theorem GetEndpoint_resolution_witness:
  "tencent_GetEndpoint (sample_tencent\<lparr>tc_Endpoint := ''cdn.example.com''\<rparr>) = ''cdn.example.com''
   \<and> tencent_GetEndpoint sample_tencent = ''bucket-1250000000.cos.ap-beijing.myqcloud.com''
   \<and> azureblob_GetEndpoint (sample_azure\<lparr>az_Endpoint := ''localhost:8080''\<rparr>) = ''localhost:8080''
   \<and> azureblob_GetEndpoint sample_azure = ''https://account.blob.core.windows.net''
   \<and> aliyun_GetEndpoint sample_bucket (sample_config\<lparr>ali_Endpoint := ''cdn.example.com''\<rparr>) = ''cdn.example.com''
   \<and> aliyun_GetEndpoint sample_bucket sample_config = ''bucket.oss-cn-hangzhou.aliyuncs.com''
   \<and> aliyun_GetEndpoint sample_bucket (sample_config\<lparr>ali_Endpoint := []\<rparr>) = ''bucket.oss-cn-hangzhou.aliyuncs.com''"
proof -
  have a: "ali_Endpoint (sample_config\<lparr>ali_Endpoint := ''cdn.example.com''\<rparr>) \<noteq> []
         \<and> \<not> HasSuffix (ali_Endpoint (sample_config\<lparr>ali_Endpoint := ''cdn.example.com''\<rparr>)) ''aliyuncs.com''"
    by (simp add: cdn_not_aliyuncs)
  have b: "ali_Endpoint sample_config \<noteq> [] \<and> HasSuffix (ali_Endpoint sample_config) ''aliyuncs.com''"
    by (simp add: sample_config_def default_is_aliyuncs)
  have c: "ali_Endpoint (sample_config\<lparr>ali_Endpoint := []\<rparr>) = []"
    by simp
  have t: "TrimPrefix (TrimPrefix (Client_Config_Endpoint sample_bucket) ''https://'') ''http://''
             = ''oss-cn-hangzhou.aliyuncs.com''"
    by (simp add: sample_bucket_def TrimPrefix_def HasPrefix_def)
  have n: "ali_Bucket sample_config = ''bucket''"
       "ali_Endpoint sample_config = ''oss-cn-hangzhou.aliyuncs.com''"
    by (simp_all add: sample_config_def)
  have "tencent_GetEndpoint (sample_tencent\<lparr>tc_Endpoint := ''cdn.example.com''\<rparr>) = ''cdn.example.com''"
    using GetEndpoint_resolution [of "sample_tencent\<lparr>tc_Endpoint := ''cdn.example.com''\<rparr>"] by simp
  moreover have "tencent_GetEndpoint sample_tencent = ''bucket-1250000000.cos.ap-beijing.myqcloud.com''"
    using GetEndpoint_resolution [of sample_tencent] by (simp add: sample_tencent_def)
  moreover have "azureblob_GetEndpoint (sample_azure\<lparr>az_Endpoint := ''localhost:8080''\<rparr>) = ''localhost:8080''"
    using GetEndpoint_resolution [of _ "sample_azure\<lparr>az_Endpoint := ''localhost:8080''\<rparr>"] by simp
  moreover have "azureblob_GetEndpoint sample_azure = ''https://account.blob.core.windows.net''"
    using GetEndpoint_resolution [of _ sample_azure] by (simp add: sample_azure_def)
  moreover have "aliyun_GetEndpoint sample_bucket (sample_config\<lparr>ali_Endpoint := ''cdn.example.com''\<rparr>) = ''cdn.example.com''"
    using GetEndpoint_resolution [of _ _ "sample_config\<lparr>ali_Endpoint := ''cdn.example.com''\<rparr>" sample_bucket] a
    by simp
  moreover have "aliyun_GetEndpoint sample_bucket sample_config = ''bucket.oss-cn-hangzhou.aliyuncs.com''"
    using GetEndpoint_resolution [of _ _ sample_config sample_bucket] b n by simp
  moreover have "aliyun_GetEndpoint sample_bucket (sample_config\<lparr>ali_Endpoint := []\<rparr>) = ''bucket.oss-cn-hangzhou.aliyuncs.com''"
    using GetEndpoint_resolution [of _ _ "sample_config\<lparr>ali_Endpoint := []\<rparr>" sample_bucket] c t n by simp
  ultimately show ?thesis by blast
qed

text \<open>
  C5 as stated fails for Aliyun with the endpoint \<open>oss-cn-hangzhou.aliyuncs.com\<close>
  configured: \<open>GetEndpoint\<close> is not that endpoint but the bucket's host under it.
\<close>

theorem GetEndpoint_resolution_counterexample:
  "ali_Endpoint sample_config = ''oss-cn-hangzhou.aliyuncs.com''
   \<and> aliyun_GetEndpoint sample_bucket sample_config = ''bucket.oss-cn-hangzhou.aliyuncs.com''
   \<and> aliyun_GetEndpoint sample_bucket sample_config \<noteq> ali_Endpoint sample_config"
proof -
  have e: "ali_Endpoint sample_config = ''oss-cn-hangzhou.aliyuncs.com''"
    by (simp add: sample_config_def)
  show ?thesis by (simp add: sample_endpoint e)
qed



section \<open>Delete on the filesystem\<close>







section \<open>Get and its temporary file\<close>

lemma Get_shape:
  assumes "\<And>err. stream = Inl err \<Longrightarrow> r = ((None, Some err), d)"
      and "\<And>src. stream = Inr src \<Longrightarrow>
             r = (case TempFile sys dir pat d of
                    (Inl err, d') \<Rightarrow> ((None, Some err), d')
                  | (Inr file, d') \<Rightarrow> (case Copy d' file src of (err, d'') \<Rightarrow> ((Some file, err), d'')))"
  shows "(\<forall>e. stream = Inl e \<longrightarrow> r = ((None, Some e), d))
       \<and> (fst (fst r) = None \<longrightarrow> snd r = d)
       \<and> (\<forall>src f. stream = Inr src \<and> new_name sys dir pat d = Inr f \<and> d f = None \<longrightarrow>
             r = ((Some f, failure src), d(f \<mapsto> delivered src)))"
proof (cases stream)
  case (Inl err)
  with assms(1) show ?thesis by simp
next
  case (Inr src)
  with assms(2) show ?thesis
    by (auto simp: TempFile_def Copy_def split: sum.splits if_splits)
qed

text \<open>
  C8, as the code has it, for Aliyun, Tencent and Huawei. When the stream cannot be
  acquired, \<open>Get\<close> returns the error before any temporary file is created, and whenever
  \<open>Get\<close> returns no file the disk is as it was. When the stream is acquired and the
  temporary file is created, \<open>Get\<close> returns that file together with the error of the copy,
  if any, and the file stays on the disk with the bytes that were delivered.
\<close>

theorem Get_failure:
  "(aliyun_GetStream bucket parse p = Inl e \<longrightarrow> aliyun_Get bucket sys parse d p = ((None, Some e), d))
   \<and> (fst (fst (aliyun_Get bucket sys parse d p)) = None \<longrightarrow> snd (aliyun_Get bucket sys parse d p) = d)
   \<and> (aliyun_GetStream bucket parse p = Inr src \<and> new_name sys ''/tmp'' ''ali'' d = Inr f \<and> d f = None \<longrightarrow>
        aliyun_Get bucket sys parse d p = ((Some f, failure src), d(f \<mapsto> delivered src)))
   \<and> (tencent_GetStream cos_Get parse p = Inl e \<longrightarrow> tencent_Get cos_Get sys parse d p = ((None, Some e), d))
   \<and> (fst (fst (tencent_Get cos_Get sys parse d p)) = None \<longrightarrow> snd (tencent_Get cos_Get sys parse d p) = d)
   \<and> (tencent_GetStream cos_Get parse p = Inr src \<and> new_name sys ''/tmp'' ''tencent'' d = Inr f \<and> d f = None \<longrightarrow>
        tencent_Get cos_Get sys parse d p = ((Some f, failure src), d(f \<mapsto> delivered src)))
   \<and> (huawei_GetStream obs huawei p = Inl e \<longrightarrow> huawei_Get obs sys huawei d p = ((None, Some e), d))
   \<and> (fst (fst (huawei_Get obs sys huawei d p)) = None \<longrightarrow> snd (huawei_Get obs sys huawei d p) = d)
   \<and> (huawei_GetStream obs huawei p = Inr src \<and> new_name sys ''/tmp'' ''huaweicloud'' d = Inr f \<and> d f = None \<longrightarrow>
        huawei_Get obs sys huawei d p = ((Some f, failure src), d(f \<mapsto> delivered src)))"
proof -
  have a: "(\<forall>e. aliyun_GetStream bucket parse p = Inl e \<longrightarrow> aliyun_Get bucket sys parse d p = ((None, Some e), d))
       \<and> (fst (fst (aliyun_Get bucket sys parse d p)) = None \<longrightarrow> snd (aliyun_Get bucket sys parse d p) = d)
       \<and> (\<forall>src f. aliyun_GetStream bucket parse p = Inr src \<and> new_name sys ''/tmp'' ''ali'' d = Inr f \<and> d f = None \<longrightarrow>
             aliyun_Get bucket sys parse d p = ((Some f, failure src), d(f \<mapsto> delivered src)))"
    by (rule Get_shape) (simp_all add: aliyun_Get_def)
  have t: "(\<forall>e. tencent_GetStream cos_Get parse p = Inl e \<longrightarrow> tencent_Get cos_Get sys parse d p = ((None, Some e), d))
       \<and> (fst (fst (tencent_Get cos_Get sys parse d p)) = None \<longrightarrow> snd (tencent_Get cos_Get sys parse d p) = d)
       \<and> (\<forall>src f. tencent_GetStream cos_Get parse p = Inr src \<and> new_name sys ''/tmp'' ''tencent'' d = Inr f \<and> d f = None \<longrightarrow>
             tencent_Get cos_Get sys parse d p = ((Some f, failure src), d(f \<mapsto> delivered src)))"
    by (rule Get_shape) (simp_all add: tencent_Get_def)
  have h: "(\<forall>e. huawei_GetStream obs huawei p = Inl e \<longrightarrow> huawei_Get obs sys huawei d p = ((None, Some e), d))
       \<and> (fst (fst (huawei_Get obs sys huawei d p)) = None \<longrightarrow> snd (huawei_Get obs sys huawei d p) = d)
       \<and> (\<forall>src f. huawei_GetStream obs huawei p = Inr src \<and> new_name sys ''/tmp'' ''huaweicloud'' d = Inr f \<and> d f = None \<longrightarrow>
             huawei_Get obs sys huawei d p = ((Some f, failure src), d(f \<mapsto> delivered src)))"
    by (rule Get_shape) (simp_all add: huawei_Get_def)
  from a t h show ?thesis by blast
qed


lemma sample_streams:
  "aliyun_GetStream (sample_bucket\<lparr>GetObject := no_such_key\<rparr>) rejecting ''missing.txt'' = Inl (Error ''NoSuchKey'')"
  "aliyun_GetStream sample_bucket rejecting ''a.txt'' = Inr (Stream ''par'' (Some (Error ''unexpected EOF'')))"
  "tencent_GetStream no_such_key rejecting ''missing.txt'' = Inl (Error ''NoSuchKey'')"
  "tencent_GetStream interrupted rejecting ''a.txt'' = Inr (Stream ''par'' (Some (Error ''unexpected EOF'')))"
  "huawei_GetStream (sample_obs\<lparr>obs_GetObject := no_such_key\<rparr>) sample_huawei ''missing.txt'' = Inl (Error ''NoSuchKey'')"
  "huawei_GetStream sample_obs sample_huawei ''a.txt'' = Inr (Stream ''par'' (Some (Error ''unexpected EOF'')))"
  by (simp_all add: aliyun_GetStream_def tencent_GetStream_def huawei_GetStream_def sample_bucket_def
      sample_obs_def no_such_key_def interrupted_def)

lemma sample_names:
  "new_name sample_os ''/tmp'' ''ali'' Map.empty = Inr ''/tmp/ali123''"
  "new_name sample_os ''/tmp'' ''tencent'' Map.empty = Inr ''/tmp/tencent123''"
  "new_name sample_os ''/tmp'' ''huaweicloud'' Map.empty = Inr ''/tmp/huaweicloud123''"
  by (simp_all add: sample_os_def)

text \<open>The theorem at a key that is missing and at an object whose copy is interrupted.\<close>

theorem Get_failure_witness:
  "aliyun_Get (sample_bucket\<lparr>GetObject := no_such_key\<rparr>) sample_os rejecting Map.empty ''missing.txt''
     = ((None, Some (Error ''NoSuchKey'')), Map.empty)
   \<and> aliyun_Get sample_bucket sample_os rejecting Map.empty ''a.txt''
     = ((Some ''/tmp/ali123'', Some (Error ''unexpected EOF'')), [''/tmp/ali123'' \<mapsto> ''par''])
   \<and> tencent_Get no_such_key sample_os rejecting Map.empty ''missing.txt''
     = ((None, Some (Error ''NoSuchKey'')), Map.empty)
   \<and> tencent_Get interrupted sample_os rejecting Map.empty ''a.txt''
     = ((Some ''/tmp/tencent123'', Some (Error ''unexpected EOF'')), [''/tmp/tencent123'' \<mapsto> ''par''])
   \<and> huawei_Get (sample_obs\<lparr>obs_GetObject := no_such_key\<rparr>) sample_os sample_huawei Map.empty ''missing.txt''
     = ((None, Some (Error ''NoSuchKey'')), Map.empty)
   \<and> huawei_Get sample_obs sample_os sample_huawei Map.empty ''a.txt''
     = ((Some ''/tmp/huaweicloud123'', Some (Error ''unexpected EOF'')), [''/tmp/huaweicloud123'' \<mapsto> ''par''])"
proof -
  note missing = Get_failure [of "sample_bucket\<lparr>GetObject := no_such_key\<rparr>" rejecting "''missing.txt''"
      "Error ''NoSuchKey''" sample_os Map.empty _ _ no_such_key
      "sample_obs\<lparr>obs_GetObject := no_such_key\<rparr>" sample_huawei]
  note partial = Get_failure [of sample_bucket rejecting "''a.txt''" _ sample_os Map.empty
      "Stream ''par'' (Some (Error ''unexpected EOF''))" "''/tmp/ali123''"]
  note partial_t = Get_failure [of _ rejecting "''a.txt''" _ sample_os Map.empty
      "Stream ''par'' (Some (Error ''unexpected EOF''))" "''/tmp/tencent123''" interrupted]
  note partial_h = Get_failure [of _ _ "''a.txt''" _ sample_os Map.empty
      "Stream ''par'' (Some (Error ''unexpected EOF''))" "''/tmp/huaweicloud123''" _ sample_obs sample_huawei]
  show ?thesis
    using missing partial partial_t partial_h
    by (simp add: sample_streams sample_names)
qed

text \<open>
  C8 as stated fails when the copy is interrupted: \<open>Get\<close> returns an error, and the
  temporary file \<open>/tmp/ali123\<close>, which was not on the disk before, holds the three bytes that
  arrived.
\<close>

theorem Get_failure_counterexample:
  "fst (aliyun_Get sample_bucket sample_os rejecting Map.empty ''a.txt'')
     = (Some ''/tmp/ali123'', Some (Error ''unexpected EOF''))
   \<and> snd (aliyun_Get sample_bucket sample_os rejecting Map.empty ''a.txt'') ''/tmp/ali123'' = Some ''par''
   \<and> Map.empty ''/tmp/ali123'' = (None :: string option)"
  by (simp add: aliyun_Get_def sample_streams TempFile_def sample_names Copy_def)

subsection \<open>Qiniu\<close>

lemma missing_url:
  "qiniu_GetURL (sample_kodo []) 1700000000 rejecting sample_qiniu ''missing.txt''
     = Inr ''https://cdn.example.com/missing.txt?e=deadline&token=signature''"
  by (simp add: qiniu_GetURL_def storageKey_def qiniu_urlRegexp_def pattern_rejects_missing
      TrimPrefix_slash_Cons sample_qiniu_def sample_kodo_def)

text \<open>
  C9 at a key that does not exist, for Qiniu. When \<open>http.Get\<close> fails, \<open>GetStream\<close> reads
  \<open>res.Body\<close> of a nil response and panics, and so does \<open>Get\<close>. When the server answers 404,
  \<open>GetStream\<close> returns the not-found error with the body, and \<open>Get\<close>, which does not test
  that error, returns a temporary file holding the body of the 404 answer and no error.
\<close>

theorem qiniu_Get_missing_key:
  "qiniu_GetStream refused (sample_kodo []) 1700000000 rejecting sample_qiniu ''missing.txt''
     = Panic nil_dereference
   \<and> qiniu_Get refused (sample_kodo []) sample_os 1700000000 rejecting sample_qiniu Map.empty ''missing.txt''
     = (Panic nil_dereference, Map.empty)
   \<and> qiniu_GetStream not_found (sample_kodo []) 1700000000 rejecting sample_qiniu ''missing.txt''
     = Returns (Some (Stream ''Document not found'' None), Some (Error ''file missing.txt not found''))
   \<and> qiniu_Get not_found (sample_kodo []) sample_os 1700000000 rejecting sample_qiniu Map.empty ''missing.txt''
     = (Returns (Some ''/tmp/qiniu123'', None), [''/tmp/qiniu123'' \<mapsto> ''Document not found''])"
  by (simp add: qiniu_Get_def qiniu_GetStream_def missing_url refused_def not_found_def TempFile_def
      Copy_def sample_os_def)

section \<open>List and pagination\<close>

lemma length_many_keys: "length many_keys = 101"
  by (simp add: many_keys_def)

lemma storageKey_empty: "storageKey rejecting [] = []"
  by (simp add: storageKey_def qiniu_urlRegexp_def pattern_rejects_empty TrimPrefix_slash_Nil)

lemma pattern_rejects_a: "\<not> MatchString url_pattern ''a''"
  by code_simp

text \<open>
  C6 at a Kodo bucket of 101 keys, all under the empty prefix: \<open>List\<close> of Qiniu returns 100
  objects and no error. \<open>List\<close> of Aliyun, on a page that reports more to follow, returns
  the one object of that page and no error.
\<close>

theorem qiniu_List_first_page:
  "length (filter (\<lambda>k. HasPrefix k (storageKey rejecting [])) many_keys) = 101
   \<and> length (fst (qiniu_List (sample_kodo many_keys) rejecting sample_qiniu [])) = 100
   \<and> snd (qiniu_List (sample_kodo many_keys) rejecting sample_qiniu []) = None
   \<and> aliyun_List (sample_bucket\<lparr>ListObjects := truncated_page\<rparr>) rejecting []
       = ([\<lparr>Path = ''/a'', Name = ''a'', LastModified = Some 0, Size = 1\<rparr>], None)"
  by (simp add: qiniu_List_def storageKey_empty sample_kodo_def paged_ListFiles_def HasPrefix_def
      length_many_keys Let_def aliyun_List_def truncated_page_def aliyun_ToRelativePath_def
      aliyun_urlRegexp_def pattern_rejects_a TrimPrefix_slash_Cons Base_def)

text \<open>
  C10. For the Azure Blob backend, \<open>List(path)\<close> panics with the value \<open>implement me\<close> for
  every configuration and every path; it returns neither objects nor an error.
\<close>

theorem azureblob_List_panics:
  "azureblob_List config path = Panic ''implement me''"
  by (simp add: azureblob_List_def)


end
